theory Spec2Isabelle
  imports Complex_Main
begin

section \<open>Data model\<close>

text \<open>
  The order routes (\<^verbatim>\<open>routes/api/order\<close>) work on three MongoDB collections through
  the Mongoose models \<^verbatim>\<open>Order\<close>, \<^verbatim>\<open>Cart\<close> and \<^verbatim>\<open>Product\<close>. A collection is a list of
  documents in natural order; \<^verbatim>\<open>findOne\<close>, \<^verbatim>\<open>updateOne\<close> and \<^verbatim>\<open>deleteOne\<close> act on the
  first document that matches. An \<^verbatim>\<open>ObjectId\<close> is an abstract identifier. Quantities are
  JavaScript numbers holding integers; money amounts are exact rationals.

  Field names carry the prefix of their document (\<open>p_\<close>, \<open>i_\<close>, \<open>c_\<close>, \<open>o_\<close>), since
  \<^verbatim>\<open>_id\<close> and \<^verbatim>\<open>quantity\<close> occur in several documents.
\<close>

type_synonym oid = nat

record product =
  p_id :: oid
  p_quantity :: int
  p_price :: rat
  p_taxable :: bool

record cart_item =
  i_id :: oid
  i_product :: oid
  i_quantity :: int
  i_status :: string

record cart =
  c_id :: oid
  c_products :: "cart_item list"

record order =
  o_id :: oid
  o_cart :: oid
  o_user :: oid
  o_total :: rat
  o_created :: nat

record db =
  Products :: "product list"
  Carts :: "cart list"
  Orders :: "order list"

text \<open>
  Modelled from the spec: the constants module (\<^verbatim>\<open>constants\<close>) with \<^verbatim>\<open>ROLES\<close> and
  \<^verbatim>\<open>CART_ITEM_STATUS\<close> is not among the sources. The roles are the three of the caller
  identity (Admin, Merchant, Customer); \<^verbatim>\<open>CART_ITEM_STATUS.Cancelled\<close> is the status
  written \<open>Cancelled\<close>, a non-empty (truthy) string.
\<close>

datatype role = Admin | Merchant | Customer

definition CART_ITEM_STATUS_Cancelled :: string where
  "CART_ITEM_STATUS_Cancelled = ''Cancelled''"

subsection \<open>Collection primitives\<close>

text \<open>\<^verbatim>\<open>Model.findOne(filter)\<close>: the first matching document, or null.\<close>

definition findOne :: "('a \<Rightarrow> bool) \<Rightarrow> 'a list \<Rightarrow> 'a option" where
  "findOne P xs = find P xs"

text \<open>\<^verbatim>\<open>Model.updateOne(filter, update)\<close>: the update applied to the first match; no match is
  not an error.\<close>

fun updateOne :: "('a \<Rightarrow> bool) \<Rightarrow> ('a \<Rightarrow> 'a) \<Rightarrow> 'a list \<Rightarrow> 'a list" where
  "updateOne P f [] = []"
| "updateOne P f (x # xs) = (if P x then f x # xs else x # updateOne P f xs)"

text \<open>\<^verbatim>\<open>Model.deleteOne(filter)\<close>: the first match removed; no match is not an error.\<close>

fun deleteOne :: "('a \<Rightarrow> bool) \<Rightarrow> 'a list \<Rightarrow> 'a list" where
  "deleteOne P [] = []"
| "deleteOne P (x # xs) = (if P x then xs else x # deleteOne P xs)"

section \<open>Tax Calculator\<close>

text \<open>
  Modelled from the spec: \<^verbatim>\<open>store.calculateTaxAmount\<close> lives in \<^verbatim>\<open>utils/store\<close>, which is
  not among the sources (only its callers in the order routes are). The spec's Tax
  Calculator is a pure function of the line items (quantity, unit price, taxable flag)
  and a fixed tax rate in percent. Only taxable lines contribute to the tax base. Amounts
  are rounded to two decimal places, half away from zero, at the point of output only:
  the tax amount and the grand total are computed from the unrounded tax base.
\<close>

record tax_line =
  t_quantity :: int
  t_price :: rat
  t_taxable :: bool

record tax_result =
  taxBase :: rat
  taxAmount :: rat
  grandTotal :: rat

definition round2 :: "rat \<Rightarrow> rat" where
  "round2 x = (if 0 \<le> x then of_int \<lfloor>x * 100 + 1 / 2\<rfloor> / 100
               else - (of_int \<lfloor>- x * 100 + 1 / 2\<rfloor> / 100))"

definition lineTotal :: "tax_line \<Rightarrow> rat" where
  "lineTotal l = of_int (t_quantity l) * t_price l"

definition exactTaxBase :: "tax_line list \<Rightarrow> rat" where
  "exactTaxBase ls = sum_list (map lineTotal (filter t_taxable ls))"

definition exactSubtotal :: "tax_line list \<Rightarrow> rat" where
  "exactSubtotal ls = sum_list (map lineTotal ls)"

definition exactTax :: "rat \<Rightarrow> tax_line list \<Rightarrow> rat" where
  "exactTax rate ls = exactTaxBase ls * rate / 100"

definition taxCalculator :: "rat \<Rightarrow> tax_line list \<Rightarrow> tax_result" where
  "taxCalculator rate ls =
     \<lparr> taxBase = round2 (exactTaxBase ls),
       taxAmount = round2 (exactTax rate ls),
       grandTotal = round2 (exactSubtotal ls + exactTax rate ls) \<rparr>"

section \<open>Order routes\<close>

text \<open>
  Every handler runs behind the \<^verbatim>\<open>auth\<close> middleware, which only resolves the requester:
  \<^verbatim>\<open>req.user.role\<close> and \<^verbatim>\<open>req.user._id\<close> are the parameters \<open>r\<close> and \<open>uid\<close> of each
  handler. The body of a handler is one \<^verbatim>\<open>try\<close> block whose \<^verbatim>\<open>catch\<close> answers
  \<^verbatim>\<open>sendErrorResponse(res, 'Please try again.')\<close>, status 400; writes done before the
  exception stay.
\<close>

type_synonym populated_item = "cart_item \<times> product option"

record order_view =
  v_id :: oid
  v_total :: rat
  v_created :: nat
  v_totalTax :: "rat option"
  v_products :: "populated_item list"
  v_cartId :: "oid option"

datatype response =
    Success bool "string option"
      \<comment> \<open>200 \<^verbatim>\<open>{success: true, orderCancelled?, message?}\<close>\<close>
  | OrderPlaced oid
      \<comment> \<open>200 \<^verbatim>\<open>{success: true, message: 'Your order has been placed successfully!', order}\<close>\<close>
  | OrdersList "order_view list"
      \<comment> \<open>200 \<^verbatim>\<open>{orders}\<close>\<close>
  | OrderDoc order_view
      \<comment> \<open>200 \<^verbatim>\<open>{order}\<close>\<close>
  | NotFound oid
      \<comment> \<open>404 \<^verbatim>\<open>{message: `Cannot find order with the id: ${orderId}.`}\<close>\<close>
  | BadRequest
      \<comment> \<open>400 \<^verbatim>\<open>{error: 'Your request could not be processed. Please try again.'}\<close>\<close>

text \<open>\<^verbatim>\<open>populate('cart')\<close> with the nested \<^verbatim>\<open>populate('products.product')\<close>: a reference
  with no document becomes null.\<close>

definition populateProducts :: "db \<Rightarrow> cart_item list \<Rightarrow> populated_item list" where
  "populateProducts d items =
     map (\<lambda>item. (item, findOne (\<lambda>p. p_id p = i_product item) (Products d))) items"

definition populateCart :: "db \<Rightarrow> order \<Rightarrow> cart option" where
  "populateCart d ord = findOne (\<lambda>c. c_id c = o_cart ord) (Carts d)"

subsection \<open>\<^verbatim>\<open>router.post('/add')\<close>\<close>

text \<open>
  \<^verbatim>\<open>Order.create\<close> stores the new order (its fresh \<^verbatim>\<open>_id\<close> and creation time are the
  parameters \<open>newId\<close> and \<open>now\<close>). \<^verbatim>\<open>orderDoc.cart.products\<close> throws when the cart
  reference has no document. \<^verbatim>\<open>mailgun.sendEmail\<close> (\<^verbatim>\<open>services/mailgun\<close>, not among the
  sources) is the parameter \<open>sendEmail\<close>: True when the awaited call resolves, False
  when it rejects.
\<close>

definition addOrder ::
  "(order \<Rightarrow> populated_item list \<Rightarrow> bool) \<Rightarrow> oid \<Rightarrow> nat \<Rightarrow> db \<Rightarrow> role \<Rightarrow> oid \<Rightarrow> oid \<Rightarrow> rat
     \<Rightarrow> response \<times> db" where
  "addOrder sendEmail newId now d r uid cartId total' =
     (let ord = \<lparr> o_id = newId, o_cart = cartId, o_user = uid, o_total = total',
                  o_created = now \<rparr>;
          d1 = d\<lparr> Orders := Orders d @ [ord] \<rparr>
      in case populateCart d1 ord of
           None \<Rightarrow> (BadRequest, d1)
         | Some c \<Rightarrow>
             if sendEmail ord (populateProducts d1 (c_products c))
             then (OrderPlaced newId, d1)
             else (BadRequest, d1))"

subsection \<open>\<^verbatim>\<open>router.get('/search')\<close>\<close>

text \<open>
  The names bound at the top level of the module: the \<^verbatim>\<open>require\<close> results of lines 1 to
  12, \<^verbatim>\<open>sendErrorResponse\<close> and \<^verbatim>\<open>increaseQuantity\<close>. Line 3 binds the Mongoose library
  to \<^verbatim>\<open>Mongoose\<close>; the search handler refers to \<^verbatim>\<open>mongoose\<close>. JavaScript names are case
  sensitive, and reading a name that is not bound throws a ReferenceError.
\<close>

definition module_scope :: "string list" where
  "module_scope =
     [''express'', ''router'', ''Mongoose'', ''Order'', ''Cart'', ''Product'', ''auth'',
      ''mailgun'', ''store'', ''ROLES'', ''CART_ITEM_STATUS'', ''sendErrorResponse'',
      ''increaseQuantity'']"

definition in_scope :: "string \<Rightarrow> bool" where
  "in_scope name = (name \<in> set module_scope)"

text \<open>
  \<^verbatim>\<open>ObjectId.isValid\<close> and the \<^verbatim>\<open>ObjectId\<close> constructor belong to the library: they are the
  parameters \<open>isValid\<close> and \<open>toObjectId\<close>. \<^verbatim>\<open>store.calculateTaxAmount\<close> is the parameter
  \<open>calc\<close>. \<^verbatim>\<open>toFixed(2)\<close> is \<open>round2\<close>.
\<close>

definition searchOrders ::
  "(string \<Rightarrow> bool) \<Rightarrow> (string \<Rightarrow> oid) \<Rightarrow> (order_view \<Rightarrow> order_view) \<Rightarrow> db \<Rightarrow> role \<Rightarrow> oid
     \<Rightarrow> string \<Rightarrow> response" where
  "searchOrders isValid toObjectId calc d r uid search =
     (if \<not> in_scope ''mongoose'' then BadRequest
      else if \<not> isValid search then OrdersList []
      else
        let query = (\<lambda>ord. o_id ord = toObjectId search
                       \<and> (if r \<noteq> Admin then o_user ord = uid else True));
            ordersDoc = filter (\<lambda>(ord, c). c \<noteq> None)
                          (map (\<lambda>ord. (ord, populateCart d ord)) (filter query (Orders d)))
        in if length ordersDoc > 0 then
             let newOrders = map (\<lambda>(ord, c).
                     \<lparr> v_id = o_id ord, v_total = round2 (o_total ord),
                       v_created = o_created ord, v_totalTax = None,
                       v_products = (case c of None \<Rightarrow> []
                                     | Some c' \<Rightarrow> populateProducts d (c_products c')),
                       v_cartId = None \<rparr>) ordersDoc;
                 orders = map calc newOrders
             in OrdersList (sort_key (\<lambda>v. - int (v_created v)) orders)
           else OrdersList [])"

subsection \<open>\<^verbatim>\<open>router.get('/:orderId')\<close>\<close>

definition getOrder ::
  "(order_view \<Rightarrow> order_view) \<Rightarrow> db \<Rightarrow> role \<Rightarrow> oid \<Rightarrow> oid \<Rightarrow> response" where
  "getOrder calc d r uid orderId =
     (let orderDoc =
            (if r = Admin then findOne (\<lambda>ord. o_id ord = orderId) (Orders d)
             else findOne (\<lambda>ord. o_id ord = orderId \<and> o_user ord = uid) (Orders d))
      in case orderDoc of
           None \<Rightarrow> NotFound orderId
         | Some ord \<Rightarrow>
             (case populateCart d ord of
                None \<Rightarrow> NotFound orderId
              | Some c \<Rightarrow>
                  OrderDoc (calc \<lparr> v_id = o_id ord, v_total = o_total ord,
                                  v_created = o_created ord, v_totalTax = Some 0,
                                  v_products = populateProducts d (c_products c),
                                  v_cartId = Some (c_id c) \<rparr>)))"

subsection \<open>\<^verbatim>\<open>increaseQuantity\<close> and \<^verbatim>\<open>router.delete('/cancel/:orderId')\<close>\<close>

text \<open>The update \<^verbatim>\<open>{ $inc: { quantity: n } }\<close>.\<close>

definition inc_quantity :: "int \<Rightarrow> product \<Rightarrow> product" where
  "inc_quantity n p = p\<lparr> p_quantity := p_quantity p + n \<rparr>"

text \<open>\<^verbatim>\<open>Product.bulkWrite\<close> of \<^verbatim>\<open>updateOne\<close> operations, each a product reference and an
  increment, applied in order.\<close>

definition bulkWrite :: "(oid \<times> int) list \<Rightarrow> product list \<Rightarrow> product list" where
  "bulkWrite bulkOptions ps =
     foldl (\<lambda>ps' (pid, n). updateOne (\<lambda>p. p_id p = pid) (inc_quantity n) ps') ps bulkOptions"

definition bulkOptions_of :: "cart_item list \<Rightarrow> (oid \<times> int) list" where
  "bulkOptions_of items = map (\<lambda>item. (i_product item, i_quantity item)) items"

text \<open>
  \<^verbatim>\<open>increaseQuantity\<close> maps every line of the cart, whatever its status, to an increment
  and calls \<^verbatim>\<open>Product.bulkWrite\<close>. The call is not awaited and its promise is dropped;
  this function gives the state once the issued write has been applied. When the write
  is applied, relative to the deletions that follow, is the subject of the schedule model
  below.
\<close>

definition increaseQuantity :: "cart_item list \<Rightarrow> db \<Rightarrow> db" where
  "increaseQuantity items d = d\<lparr> Products := bulkWrite (bulkOptions_of items) (Products d) \<rparr>"

text \<open>\<^verbatim>\<open>order.cart\<close> throws when no order has the id, \<^verbatim>\<open>foundCart.products\<close> when the order's
  cart has no document. The requester is not consulted.\<close>

definition cancelOrder :: "db \<Rightarrow> role \<Rightarrow> oid \<Rightarrow> oid \<Rightarrow> response \<times> db" where
  "cancelOrder d r uid orderId =
     (case findOne (\<lambda>ord. o_id ord = orderId) (Orders d) of
        None \<Rightarrow> (BadRequest, d)
      | Some ord \<Rightarrow>
          (case findOne (\<lambda>c. c_id c = o_cart ord) (Carts d) of
             None \<Rightarrow> (BadRequest, d)
           | Some foundCart \<Rightarrow>
               let d1 = increaseQuantity (c_products foundCart) d;
                   d2 = d1\<lparr> Orders := deleteOne (\<lambda>ord'. o_id ord' = orderId) (Orders d1) \<rparr>;
                   d3 = d2\<lparr> Carts := deleteOne (\<lambda>c. c_id c = o_cart ord) (Carts d2) \<rparr>
               in (Success False None, d3)))"

subsection \<open>\<^verbatim>\<open>router.put('/status/item/:itemId')\<close>\<close>

text \<open>
  \<^verbatim>\<open>req.body.status || CART_ITEM_STATUS.Cancelled\<close>: an absent status and the empty string
  are falsy. The filter \<^verbatim>\<open>{'products._id': itemId}\<close> matches a cart with such a line, and
  \<^verbatim>\<open>'products.$.status'\<close> writes the first such line of the matched cart.
\<close>

definition has_item :: "oid \<Rightarrow> cart \<Rightarrow> bool" where
  "has_item itemId c = (\<exists>p \<in> set (c_products c). i_id p = itemId)"

definition set_item_status :: "oid \<Rightarrow> string \<Rightarrow> cart \<Rightarrow> cart" where
  "set_item_status itemId st c =
     c\<lparr> c_products := updateOne (\<lambda>p. i_id p = itemId) (\<lambda>p. p\<lparr> i_status := st \<rparr>) (c_products c) \<rparr>"

definition status_of_body :: "string option \<Rightarrow> string" where
  "status_of_body body_status =
     (case body_status of
        None \<Rightarrow> CART_ITEM_STATUS_Cancelled
      | Some st \<Rightarrow> if st = [] then CART_ITEM_STATUS_Cancelled else st)"

definition updateItemStatus ::
  "db \<Rightarrow> role \<Rightarrow> oid \<Rightarrow> oid \<Rightarrow> oid \<Rightarrow> oid \<Rightarrow> string option \<Rightarrow> response \<times> db" where
  "updateItemStatus d r uid itemId orderId cartId body_status =
     (let st = status_of_body body_status
      in case findOne (has_item itemId) (Carts d) of
           None \<Rightarrow> (BadRequest, d)
         | Some foundCart \<Rightarrow>
             let foundCartProduct = find (\<lambda>p. i_id p = itemId) (c_products foundCart);
                 d1 = d\<lparr> Carts := updateOne (has_item itemId) (set_item_status itemId st)
                                     (Carts d) \<rparr>
             in if st = CART_ITEM_STATUS_Cancelled then
                  (case foundCartProduct of
                     None \<Rightarrow> (BadRequest, d1)
                   | Some fcp \<Rightarrow>
                       let d2 = d1\<lparr> Products :=
                                  updateOne (\<lambda>p. p_id p = i_product fcp)
                                    (inc_quantity (i_quantity fcp)) (Products d1) \<rparr>
                       in case findOne (\<lambda>c. c_id c = cartId) (Carts d2) of
                            None \<Rightarrow> (BadRequest, d2)
                          | Some c \<Rightarrow>
                              let items = filter (\<lambda>item. i_status item
                                              = CART_ITEM_STATUS_Cancelled) (c_products c)
                              in if length (c_products c) = length items then
                                   let d3 = d2\<lparr> Orders :=
                                              deleteOne (\<lambda>ord. o_id ord = orderId) (Orders d2) \<rparr>;
                                       d4 = d3\<lparr> Carts :=
                                              deleteOne (\<lambda>c'. c_id c' = cartId) (Carts d3) \<rparr>
                                   in (Success True
                                         (Some ((if r = Admin then ''Order'' else ''Your order'')
                                                @ '' has been cancelled successfully'')), d4)
                                 else (Success False
                                         (Some ''Item has been cancelled successfully!''), d2))
                else (Success False (Some ''Item status has been updated successfully!''), d1))"

section \<open>Cancelling the lines of a cart one at a time\<close>

text \<open>
  A client cancels the lines \<open>ids\<close> in turn, each with a request to the item status
  handler that names the same order and cart. The result lists, for every call, the
  answer and the database after the call.
\<close>

fun cancelEach :: "db \<Rightarrow> role \<Rightarrow> oid \<Rightarrow> oid \<Rightarrow> oid \<Rightarrow> oid list \<Rightarrow> (response \<times> db) list" where
  "cancelEach d r uid orderId cartId [] = []"
| "cancelEach d r uid orderId cartId (itemId # rest) =
     updateItemStatus d r uid itemId orderId cartId (Some CART_ITEM_STATUS_Cancelled)
       # cancelEach (snd (updateItemStatus d r uid itemId orderId cartId
                            (Some CART_ITEM_STATUS_Cancelled)))
           r uid orderId cartId rest"

text \<open>The ids of the lines that are not Cancelled.\<close>

definition active_ids :: "cart_item list \<Rightarrow> oid list" where
  "active_ids items = map i_id (filter (\<lambda>i. i_status i \<noteq> CART_ITEM_STATUS_Cancelled) items)"

section \<open>The writes of the whole-order cancel, as the database sees them\<close>

text \<open>
  An awaited call suspends the handler until the database has applied the write. A call
  whose promise is dropped only issues the write: the handler goes on at once, and the
  database applies the write at some later time. The handler of
  \<^verbatim>\<open>router.delete('/cancel/:orderId')\<close> issues three writes: the bulk write of
  \<^verbatim>\<open>increaseQuantity\<close>, dropped (line 321 has no \<^verbatim>\<open>await\<close> and returns nothing), and the
  two awaited deletions (lines 245 and 246).
\<close>

datatype db_write = BulkWrite "(oid \<times> int) list" | DeleteOrder oid | DeleteCart oid

fun apply_write :: "db_write \<Rightarrow> db \<Rightarrow> db" where
  "apply_write (BulkWrite bulkOptions) d = d\<lparr> Products := bulkWrite bulkOptions (Products d) \<rparr>"
| "apply_write (DeleteOrder orderId) d =
     d\<lparr> Orders := deleteOne (\<lambda>ord. o_id ord = orderId) (Orders d) \<rparr>"
| "apply_write (DeleteCart cartId) d =
     d\<lparr> Carts := deleteOne (\<lambda>c. c_id c = cartId) (Carts d) \<rparr>"

datatype call = Awaited db_write | Dropped db_write

definition cancelOrder_calls :: "db \<Rightarrow> oid \<Rightarrow> call list option" where
  "cancelOrder_calls d orderId =
     (case findOne (\<lambda>ord. o_id ord = orderId) (Orders d) of
        None \<Rightarrow> None
      | Some ord \<Rightarrow>
          (case findOne (\<lambda>c. c_id c = o_cart ord) (Carts d) of
             None \<Rightarrow> None
           | Some foundCart \<Rightarrow>
               Some [Dropped (BulkWrite (bulkOptions_of (c_products foundCart))),
                     Awaited (DeleteOrder orderId),
                     Awaited (DeleteCart (o_cart ord))]))"

record run_state =
  store :: db
  pending :: "db_write list"
  todo :: "call list"

text \<open>
  A run is driven by a schedule. On \<open>Proceed\<close> the handler performs its next call: an
  awaited write is applied, a dropped write is only added to the pending writes. On
  \<open>Complete i\<close> the database applies the pending write at position \<open>i\<close>. When
  \<open>todo\<close> is empty the handler has sent its answer.
\<close>

datatype tick = Proceed | Complete nat

fun step :: "tick \<Rightarrow> run_state \<Rightarrow> run_state option" where
  "step Proceed s =
     (case todo s of
        [] \<Rightarrow> None
      | Awaited w # rest \<Rightarrow> Some (s\<lparr> store := apply_write w (store s), todo := rest \<rparr>)
      | Dropped w # rest \<Rightarrow> Some (s\<lparr> pending := pending s @ [w], todo := rest \<rparr>))"
| "step (Complete i) s =
     (if i < length (pending s)
      then Some (s\<lparr> store := apply_write (pending s ! i) (store s),
                    pending := take i (pending s) @ drop (Suc i) (pending s) \<rparr>)
      else None)"

fun run :: "tick list \<Rightarrow> run_state \<Rightarrow> run_state option" where
  "run [] s = Some s"
| "run (t # ts) s = (case step t s of None \<Rightarrow> None | Some s' \<Rightarrow> run ts s')"

section \<open>A sample database\<close>

text \<open>
  One order (id 50) of user 7, bound to cart 10 with two lines: line 100, two units of
  product 1, and line 101, one unit of product 2. Product 1 has five units in stock,
  product 2 none.
\<close>

definition sample_db :: db where
  "sample_db =
     \<lparr> Products = [\<lparr> p_id = 1, p_quantity = 5, p_price = 10, p_taxable = True \<rparr>,
                   \<lparr> p_id = 2, p_quantity = 0, p_price = 5, p_taxable = False \<rparr>],
       Carts = [\<lparr> c_id = 10, c_products =
                   [\<lparr> i_id = 100, i_product = 1, i_quantity = 2, i_status = ''Active'' \<rparr>,
                    \<lparr> i_id = 101, i_product = 2, i_quantity = 1, i_status = ''Active'' \<rparr>] \<rparr>],
       Orders = [\<lparr> o_id = 50, o_cart = 10, o_user = 7, o_total = 25, o_created = 1 \<rparr>] \<rparr>"

text \<open>The sample database after line 100 has been cancelled once.\<close>

definition sample_db_100_cancelled :: db where
  "sample_db_100_cancelled =
     \<lparr> Products = [\<lparr> p_id = 1, p_quantity = 7, p_price = 10, p_taxable = True \<rparr>,
                   \<lparr> p_id = 2, p_quantity = 0, p_price = 5, p_taxable = False \<rparr>],
       Carts = [\<lparr> c_id = 10, c_products =
                   [\<lparr> i_id = 100, i_product = 1, i_quantity = 2, i_status = ''Cancelled'' \<rparr>,
                    \<lparr> i_id = 101, i_product = 2, i_quantity = 1, i_status = ''Active'' \<rparr>] \<rparr>],
       Orders = [\<lparr> o_id = 50, o_cart = 10, o_user = 7, o_total = 25, o_created = 1 \<rparr>] \<rparr>"

section \<open>Observations\<close>

text \<open>The available quantity of a product, as \<^verbatim>\<open>Product.findOne({_id})\<close> would read it.\<close>

definition available :: "db \<Rightarrow> oid \<Rightarrow> int option" where
  "available d pid = map_option p_quantity (findOne (\<lambda>p. p_id p = pid) (Products d))"

text \<open>The quantity that the lines of a cart hold of one product, whatever their status.\<close>

definition credit :: "oid \<Rightarrow> cart_item list \<Rightarrow> int" where
  "credit pid items = sum_list (map i_quantity (filter (\<lambda>item. i_product item = pid) items))"

section \<open>Properties\<close>

subsection \<open>Facts about the collection primitives\<close>

lemma find_updateOne_same:
  "(\<And>x. P (f x) = P x) \<Longrightarrow> find P (updateOne P f xs) = map_option f (find P xs)"
  by (induction xs) auto

lemma find_updateOne_None:
  "(\<And>x. Q (f x) = Q x) \<Longrightarrow> (find Q (updateOne P f xs) = None) = (find Q xs = None)"
  by (induction xs) auto

lemma p_id_inc_quantity [simp]: "p_id (inc_quantity n p) = p_id p"
  by (simp add: inc_quantity_def)

lemma p_quantity_inc_quantity [simp]: "p_quantity (inc_quantity n p) = p_quantity p + n"
  by (simp add: inc_quantity_def)

lemma find_product_inc:
  "find (\<lambda>p. p_id p = pid) (updateOne (\<lambda>p. p_id p = q) (inc_quantity n) ps)
   = map_option (\<lambda>p. if q = pid then inc_quantity n p else p) (find (\<lambda>p. p_id p = pid) ps)"
  by (induction ps) (auto simp: option.map_ident)

lemma available_updateOne:
  "available (d\<lparr> Products := updateOne (\<lambda>p. p_id p = q) (inc_quantity n) (Products d) \<rparr>) pid
   = map_option (\<lambda>k. if q = pid then k + n else k) (available d pid)"
  by (cases "find (\<lambda>p. p_id p = pid) (Products d)")
    (simp_all add: available_def findOne_def find_product_inc)

lemma find_bulkWrite:
  "map_option p_quantity (find (\<lambda>p. p_id p = pid) (bulkWrite (bulkOptions_of items) ps))
   = map_option (\<lambda>k. k + credit pid items) (map_option p_quantity (find (\<lambda>p. p_id p = pid) ps))"
proof (induction items arbitrary: ps)
  case Nil
  then show ?case by (simp add: bulkWrite_def bulkOptions_of_def credit_def option.map_ident)
next
  case (Cons item items)
  have step: "bulkWrite (bulkOptions_of (item # items)) ps
     = bulkWrite (bulkOptions_of items)
         (updateOne (\<lambda>p. p_id p = i_product item) (inc_quantity (i_quantity item)) ps)"
    by (simp add: bulkWrite_def bulkOptions_of_def)
  show ?case
    unfolding step Cons.IH
    by (cases "find (\<lambda>p. p_id p = pid) ps")
      (auto simp: find_product_inc credit_def)
qed


lemma map_updateOne_key: "(\<And>x. g (f x) = g x) \<Longrightarrow> map g (updateOne P f xs) = map g xs"
  by (induction xs) auto

lemma has_item_iff: "has_item itemId c = (itemId \<in> set (map i_id (c_products c)))"
  by (auto simp: has_item_def)

lemma item_ids_set_item_status [simp]:
  "map i_id (c_products (set_item_status itemId st c)) = map i_id (c_products c)"
  by (simp add: set_item_status_def map_updateOne_key)

lemma has_item_set_item_status [simp]:
  "has_item j (set_item_status itemId st c) = has_item j c"
  by (simp add: has_item_iff)

lemma c_id_set_item_status [simp]: "c_id (set_item_status itemId st c) = c_id c"
  by (simp add: set_item_status_def)

lemma find_item_set_item_status:
  "find (\<lambda>p. i_id p = itemId) (c_products (set_item_status itemId st c))
   = map_option (\<lambda>p. p\<lparr> i_status := st \<rparr>) (find (\<lambda>p. i_id p = itemId) (c_products c))"
  by (simp add: set_item_status_def find_updateOne_same)


lemma find_Some_holds: "find P xs = Some a \<Longrightarrow> P a"
  by (induction xs) (auto split: if_splits)

lemma find_updateOne_both:
  assumes "\<And>x. Q (f x) = Q x"
  shows "find P xs = Some a \<Longrightarrow> find Q xs = Some a \<Longrightarrow> find Q (updateOne P f xs) = Some (f a)"
proof (induction xs)
  case Nil
  then show ?case by simp
next
  case (Cons x xs)
  show ?case
  proof (cases "P x")
    case True
    with Cons.prems(1) have "a = x" by simp
    moreover have "Q a" using Cons.prems(2) by (rule find_Some_holds)
    ultimately show ?thesis using True assms by simp
  next
    case False
    with Cons.prems(1) have P: "find P xs = Some a" by simp
    show ?thesis
    proof (cases "Q x")
      case True
      with Cons.prems(2) have "a = x" by simp
      moreover have "P a" using P by (rule find_Some_holds)
      ultimately show ?thesis using False by simp
    next
      case Qx: False
      with Cons.prems(2) have "find Q xs = Some a" by simp
      with P Cons.IH False Qx show ?thesis by simp
    qed
  qed
qed

lemma find_deleteOne_unique:
  "distinct (map f xs) \<Longrightarrow> find (\<lambda>y. f y = k) (deleteOne (\<lambda>y. f y = k) xs) = None"
proof (induction xs)
  case Nil
  then show ?case by simp
next
  case (Cons x xs)
  show ?case
  proof (cases "f x = k")
    case True
    with Cons.prems have "\<forall>y \<in> set xs. f y \<noteq> k" by (auto simp: image_iff)
    then have "find (\<lambda>y. f y = k) xs = None" by (simp add: find_None_iff)
    with True show ?thesis by simp
  next
    case False
    with Cons show ?thesis by simp
  qed
qed

lemma length_filter_all: "(length xs = length (filter P xs)) = (\<forall>x \<in> set xs. P x)"
proof
  assume eq: "length xs = length (filter P xs)"
  show "\<forall>x \<in> set xs. P x"
  proof
    fix x assume "x \<in> set xs"
    show "P x"
    proof (rule ccontr)
      assume "\<not> P x"
      with \<open>x \<in> set xs\<close> have "length (filter P xs) < length xs"
        by (rule length_filter_less)
      with eq show False by simp
    qed
  qed
next
  assume "\<forall>x \<in> set xs. P x"
  then have "filter P xs = xs" by (rule filter_True)
  then show "length xs = length (filter P xs)" by simp
qed

lemma find_item_Some:
  "j \<in> set (map i_id items) \<Longrightarrow> \<exists>l. find (\<lambda>p. i_id p = j) items = Some l"
  by (cases "find (\<lambda>p. i_id p = j) items") (auto simp: find_None_iff)


subsection \<open>Tax Calculator\<close>

lemma round2_two_decimals: "round2 (of_int n / 100) = of_int n / 100"
proof (cases "0 \<le> n")
  case True
  have "\<lfloor>(of_int n :: rat) + 1 / 2\<rfloor> = n" by linarith
  with True show ?thesis by (simp add: round2_def)
next
  case False
  have "\<lfloor>- (of_int n :: rat) + 1 / 2\<rfloor> = - n" by linarith
  with False show ?thesis by (simp add: round2_def)
qed

text \<open>
  C9. The scenario of the spec: a cart with productA (quantity 2, taxable, unit price
  10.00) and productB (quantity 1, not taxable, unit price 5.00) at a tax rate of 10%
  gives tax base 20.00, tax amount 2.00 and grand total 27.00; each output is the
  two-decimal rounding (half away from zero) of the exact, unrounded amount.
\<close>

theorem taxCalculator_scenario:
  "taxCalculator 10
     [\<lparr> t_quantity = 2, t_price = 10, t_taxable = True \<rparr>,
      \<lparr> t_quantity = 1, t_price = 5, t_taxable = False \<rparr>]
   = \<lparr> taxBase = 20, taxAmount = 2, grandTotal = 27 \<rparr>
   \<and> round2 (1 / 200) = 1 / 100 \<and> round2 (- (1 / 200)) = - (1 / 100)
   \<and> round2 (1 / 250) = 0"
  by (simp add: taxCalculator_def exactTaxBase_def exactSubtotal_def exactTax_def
      lineTotal_def round2_def floor_eq_iff)

subsection \<open>Search\<close>

text \<open>
  C7. A search request with a malformed identifier should be answered with status 200 and
  an empty order list. The handler reads \<^verbatim>\<open>mongoose\<close>, which the module never binds (line 3
  binds \<^verbatim>\<open>Mongoose\<close>), so every search request, whatever the identifier, ends in the
  \<^verbatim>\<open>catch\<close> block with the 400 error response.
\<close>

theorem searchOrders_always_BadRequest:
  "searchOrders isValid toObjectId calc d r uid search = BadRequest"
  by (simp add: searchOrders_def in_scope_def module_scope_def)

subsection \<open>Placing an order\<close>

text \<open>
  C8, as stated, fails: when the order-confirmation mail rejects, the order has been
  created and stays, but the placement is answered with the 400 error response.
\<close>

theorem addOrder_mail_failure_counterexample:
  "addOrder (\<lambda>ord items. False) 51 2 sample_db Customer 7 10 25
   = (BadRequest,
      sample_db\<lparr> Orders := Orders sample_db
        @ [\<lparr> o_id = 51, o_cart = 10, o_user = 7, o_total = 25, o_created = 2 \<rparr>] \<rparr>)"
  by (simp add: addOrder_def populateCart_def findOne_def sample_db_def)

text \<open>
  C8, amended. Placing an order never rolls the creation back: whatever the notification
  does, the new order is stored. A notification that fails makes the handler answer the
  400 error response, since it is awaited inside the handler's \<^verbatim>\<open>try\<close> block.
\<close>

theorem addOrder_keeps_order_reports_failure:
  "snd (addOrder sendEmail newId now d r uid cartId t)
     = d\<lparr> Orders := Orders d
         @ [\<lparr> o_id = newId, o_cart = cartId, o_user = uid, o_total = t, o_created = now \<rparr>] \<rparr>
   \<and> fst (addOrder (\<lambda>ord items. False) newId now d r uid cartId t) = BadRequest"
  by (simp add: addOrder_def Let_def split: option.splits)

subsection \<open>Cancelling a whole order\<close>

text \<open>
  C6. Only the owner of an order or an Admin should be able to cancel it. The handler
  never looks at the requester: user 8, a Customer who does not own order 50 of user 7,
  cancels it; the order and its cart are deleted and both products are restocked.
\<close>

theorem cancelOrder_by_stranger:
  "cancelOrder sample_db Customer 8 50
   = (Success False None,
      \<lparr> Products = [\<lparr> p_id = 1, p_quantity = 7, p_price = 10, p_taxable = True \<rparr>,
                    \<lparr> p_id = 2, p_quantity = 1, p_price = 5, p_taxable = False \<rparr>],
        Carts = [], Orders = [] \<rparr>)"
  by (simp add: cancelOrder_def findOne_def sample_db_def increaseQuantity_def
      bulkWrite_def bulkOptions_of_def inc_quantity_def)

subsection \<open>Fetching an order\<close>

lemma find_unique_key:
  "distinct (map f xs) \<Longrightarrow> x \<in> set xs \<Longrightarrow> find (\<lambda>y. f y = f x) xs = Some x"
  by (induction xs) (auto simp: image_iff)

lemma getOrder_not_BadRequest: "getOrder calc d r uid orderId \<noteq> BadRequest"
  by (simp add: getOrder_def Let_def split: option.splits)

lemma getOrder_cart_missing:
  assumes "\<forall>ord \<in> set (Orders d). o_id ord = orderId \<longrightarrow> populateCart d ord = None"
  shows "getOrder calc d r uid orderId = NotFound orderId"
proof -
  have "populateCart d ord = None" if "find P (Orders d) = Some ord" "\<And>x. P x \<Longrightarrow> o_id x = orderId"
    for P ord
    using that assms by (auto simp: find_Some_iff)
  then show ?thesis
    by (auto simp: getOrder_def findOne_def Let_def split: option.splits)
qed

text \<open>
  C5. An Admin fetches any existing order whose cart exists. A requester who is not Admin
  and owns no order with the requested id gets the 404 answer, which carries the id only.
  The answer is 404 as well when no order has the id and when the cart of the order is
  missing. The handler never answers with the 400 error response.
\<close>

theorem getOrder_access:
  "(ord \<in> set (Orders d) \<longrightarrow> distinct (map o_id (Orders d)) \<longrightarrow> populateCart d ord = Some c \<longrightarrow>
      getOrder calc d Admin uid (o_id ord)
        = OrderDoc (calc \<lparr> v_id = o_id ord, v_total = o_total ord, v_created = o_created ord,
                           v_totalTax = Some 0,
                           v_products = populateProducts d (c_products c),
                           v_cartId = Some (c_id c) \<rparr>))
   \<and> (r \<noteq> Admin \<longrightarrow> (\<forall>ord' \<in> set (Orders d). o_id ord' = orderId \<longrightarrow> o_user ord' \<noteq> uid) \<longrightarrow>
        getOrder calc d r uid orderId = NotFound orderId)
   \<and> ((\<forall>ord' \<in> set (Orders d). o_id ord' \<noteq> orderId) \<longrightarrow>
        getOrder calc d r uid orderId = NotFound orderId)
   \<and> ((\<forall>ord' \<in> set (Orders d). o_id ord' = orderId \<longrightarrow> populateCart d ord' = None) \<longrightarrow>
        getOrder calc d r uid orderId = NotFound orderId)
   \<and> getOrder calc d r uid orderId \<noteq> BadRequest"
proof (intro conjI impI)
  assume "ord \<in> set (Orders d)" "distinct (map o_id (Orders d))" "populateCart d ord = Some c"
  then show "getOrder calc d Admin uid (o_id ord)
        = OrderDoc (calc \<lparr> v_id = o_id ord, v_total = o_total ord, v_created = o_created ord,
                           v_totalTax = Some 0,
                           v_products = populateProducts d (c_products c),
                           v_cartId = Some (c_id c) \<rparr>)"
    by (simp add: getOrder_def findOne_def find_unique_key)
next
  assume "r \<noteq> Admin" "\<forall>ord' \<in> set (Orders d). o_id ord' = orderId \<longrightarrow> o_user ord' \<noteq> uid"
  then have "find (\<lambda>ord. o_id ord = orderId \<and> o_user ord = uid) (Orders d) = None"
    by (auto simp: find_None_iff)
  with \<open>r \<noteq> Admin\<close> show "getOrder calc d r uid orderId = NotFound orderId"
    by (simp add: getOrder_def findOne_def)
next
  assume "\<forall>ord' \<in> set (Orders d). o_id ord' \<noteq> orderId"
  then have "find (\<lambda>ord. o_id ord = orderId \<and> o_user ord = uid) (Orders d) = None"
    and "find (\<lambda>ord. o_id ord = orderId) (Orders d) = None"
    by (auto simp: find_None_iff)
  then show "getOrder calc d r uid orderId = NotFound orderId"
    by (simp add: getOrder_def findOne_def)
next
  assume "\<forall>ord' \<in> set (Orders d). o_id ord' = orderId \<longrightarrow> populateCart d ord' = None"
  then show "getOrder calc d r uid orderId = NotFound orderId"
    by (rule getOrder_cart_missing)
next
  show "getOrder calc d r uid orderId \<noteq> BadRequest"
    by (rule getOrder_not_BadRequest)
qed

theorem getOrder_access_witness:
  "getOrder (\<lambda>v. v) sample_db Admin 8 50
     = OrderDoc \<lparr> v_id = 50, v_total = 25, v_created = 1, v_totalTax = Some 0,
         v_products =
           [(\<lparr> i_id = 100, i_product = 1, i_quantity = 2, i_status = ''Active'' \<rparr>,
             Some \<lparr> p_id = 1, p_quantity = 5, p_price = 10, p_taxable = True \<rparr>),
            (\<lparr> i_id = 101, i_product = 2, i_quantity = 1, i_status = ''Active'' \<rparr>,
             Some \<lparr> p_id = 2, p_quantity = 0, p_price = 5, p_taxable = False \<rparr>)],
         v_cartId = Some 10 \<rparr>
   \<and> getOrder (\<lambda>v. v) sample_db Customer 8 50 = NotFound 50
   \<and> getOrder (\<lambda>v. v) sample_db Customer 7 99 = NotFound 99
   \<and> getOrder (\<lambda>v. v) (sample_db\<lparr> Carts := [] \<rparr>) Customer 7 50 = NotFound 50"
  using
    getOrder_access [of "\<lparr> o_id = 50, o_cart = 10, o_user = 7, o_total = 25, o_created = 1 \<rparr>"
      sample_db "\<lparr> c_id = 10, c_products =
                   [\<lparr> i_id = 100, i_product = 1, i_quantity = 2, i_status = ''Active'' \<rparr>,
                    \<lparr> i_id = 101, i_product = 2, i_quantity = 1, i_status = ''Active'' \<rparr>] \<rparr>"
      "\<lambda>v. v" 8 Customer 50]
    getOrder_access [of _ sample_db _ "\<lambda>v. v" 7 Customer 99]
    getOrder_access [of _ "sample_db\<lparr> Carts := [] \<rparr>" _ "\<lambda>v. v" 7 Customer 50]
  by (simp add: sample_db_def populateCart_def populateProducts_def findOne_def)

subsection \<open>The effects of the item status handler and of the whole-order cancel\<close>

lemmas eval_defs = updateItemStatus_def cancelOrder_def findOne_def has_item_def
  set_item_status_def status_of_body_def CART_ITEM_STATUS_Cancelled_def inc_quantity_def
  increaseQuantity_def bulkWrite_def bulkOptions_of_def

lemma cancel_100_sample:
  "updateItemStatus sample_db Customer 7 100 50 10 None
   = (Success False (Some ''Item has been cancelled successfully!''), sample_db_100_cancelled)"
  by (simp add: eval_defs sample_db_def sample_db_100_cancelled_def)

lemma updateItemStatus_Products:
  assumes "status_of_body bs = CART_ITEM_STATUS_Cancelled"
    and "findOne (has_item itemId) (Carts d) = Some fc"
    and "find (\<lambda>p. i_id p = itemId) (c_products fc) = Some l"
  shows "Products (snd (updateItemStatus d r uid itemId orderId cartId bs))
         = updateOne (\<lambda>p. p_id p = i_product l) (inc_quantity (i_quantity l)) (Products d)"
  using assms by (simp add: updateItemStatus_def Let_def split: option.splits)

lemma available_cong: "Products d = Products d' \<Longrightarrow> available d pid = available d' pid"
  by (simp add: available_def)

lemma updateItemStatus_available:
  assumes "status_of_body bs = CART_ITEM_STATUS_Cancelled"
    and "findOne (has_item itemId) (Carts d) = Some fc"
    and "find (\<lambda>p. i_id p = itemId) (c_products fc) = Some l"
  shows "available (snd (updateItemStatus d r uid itemId orderId cartId bs)) pid
         = map_option (\<lambda>k. if i_product l = pid then k + i_quantity l else k) (available d pid)"
proof -
  have "available (snd (updateItemStatus d r uid itemId orderId cartId bs)) pid
        = available (d\<lparr> Products := updateOne (\<lambda>p. p_id p = i_product l)
                          (inc_quantity (i_quantity l)) (Products d) \<rparr>) pid"
    by (rule available_cong) (simp add: updateItemStatus_Products [OF assms])
  then show ?thesis by (simp add: available_updateOne)
qed

lemma credit_split:
  "credit pid items
   = credit pid (filter (\<lambda>item. i_status item \<noteq> CART_ITEM_STATUS_Cancelled) items)
     + credit pid (filter (\<lambda>item. i_status item = CART_ITEM_STATUS_Cancelled) items)"
  by (induction items) (simp_all add: credit_def)

lemma cancelOrder_available:
  assumes "findOne (\<lambda>ord. o_id ord = orderId) (Orders d) = Some ord"
    and "findOne (\<lambda>c. c_id c = o_cart ord) (Carts d) = Some c"
  shows "available (snd (cancelOrder d r uid orderId)) pid
         = map_option (\<lambda>k. k + credit pid (c_products c)) (available d pid)"
  using assms
  by (simp add: cancelOrder_def Let_def available_def increaseQuantity_def findOne_def
      find_bulkWrite)


lemma updateItemStatus_Carts:
  assumes "status_of_body bs = CART_ITEM_STATUS_Cancelled"
    and "findOne (has_item itemId) (Carts d) = Some fc"
    and "find (\<lambda>p. i_id p = itemId) (c_products fc) = Some l"
  shows "Carts (snd (updateItemStatus d r uid itemId orderId cartId bs))
           = updateOne (has_item itemId) (set_item_status itemId CART_ITEM_STATUS_Cancelled) (Carts d)
         \<or> Carts (snd (updateItemStatus d r uid itemId orderId cartId bs))
           = deleteOne (\<lambda>c. c_id c = cartId)
               (updateOne (has_item itemId) (set_item_status itemId CART_ITEM_STATUS_Cancelled)
                  (Carts d))"
  using assms by (simp add: updateItemStatus_def Let_def split: option.splits)

lemma updateItemStatus_Success:
  assumes "status_of_body bs = CART_ITEM_STATUS_Cancelled"
    and "findOne (has_item itemId) (Carts d) = Some fc"
    and "find (\<lambda>p. i_id p = itemId) (c_products fc) = Some l"
    and "findOne (\<lambda>c. c_id c = cartId) (Carts d) = Some c0"
  shows "\<exists>b m. fst (updateItemStatus d r uid itemId orderId cartId bs) = Success b m"
proof -
  have "find (\<lambda>c. c_id c = cartId)
          (updateOne (has_item itemId) (set_item_status itemId CART_ITEM_STATUS_Cancelled) (Carts d))
        \<noteq> None"
    using assms(4) by (simp add: find_updateOne_None findOne_def)
  with assms(1-3) show ?thesis
    by (auto simp: updateItemStatus_def Let_def findOne_def split: option.splits)
qed

lemma status_of_body_default:
  "status_of_body None = CART_ITEM_STATUS_Cancelled"
  "status_of_body (Some []) = CART_ITEM_STATUS_Cancelled"
  "status_of_body (Some CART_ITEM_STATUS_Cancelled) = CART_ITEM_STATUS_Cancelled"
  by (simp_all add: status_of_body_def)

lemma updateItemStatus_status_of_body:
  "status_of_body bs = status_of_body bs' \<Longrightarrow>
   updateItemStatus d r uid itemId orderId cartId bs
   = updateItemStatus d r uid itemId orderId cartId bs'"
  by (simp add: updateItemStatus_def)


subsection \<open>Inventory conservation\<close>

text \<open>
  C1, as stated, fails. Line 100 (two units of product 1) is cancelled through the item
  handler, which credits its two units; the whole order is cancelled afterwards, and
  \<^verbatim>\<open>increaseQuantity\<close> credits the two units of the cancelled line again: product 1 goes
  from 5 to 9, although the lines of the order hold two units of it.
\<close>

theorem restock_twice_counterexample:
  "available sample_db 1 = Some 5
   \<and> available (snd (updateItemStatus sample_db Customer 7 100 50 10 None)) 1 = Some (5 + 2)
   \<and> credit 1 (filter (\<lambda>item. i_status item \<noteq> CART_ITEM_STATUS_Cancelled)
         (c_products (hd (Carts (snd (updateItemStatus sample_db Customer 7 100 50 10 None))))))
       = 0
   \<and> available (snd (cancelOrder (snd (updateItemStatus sample_db Customer 7 100 50 10 None))
                       Customer 7 50)) 1 = Some (5 + 2 + 2)"
  by (simp add: cancel_100_sample)
    (simp add: eval_defs sample_db_def sample_db_100_cancelled_def available_def credit_def)

text \<open>
  C1, amended. Once its bulk write has been applied, the whole-order cancel has credited
  every product with the quantities of the lines of the cart that refer to it and are not
  Cancelled and, once more, with the quantities of those that are already Cancelled; and
  every call of the item handler with status Cancelled credits the product of its line
  with the quantity of the line, whatever the status of the line before the call.
\<close>

theorem cancel_credits_every_line:
  "(findOne (\<lambda>ord. o_id ord = orderId) (Orders d) = Some ord \<longrightarrow>
    findOne (\<lambda>c. c_id c = o_cart ord) (Carts d) = Some c \<longrightarrow>
      available (snd (cancelOrder d r uid orderId)) pid
        = map_option
            (\<lambda>k. k + credit pid (filter (\<lambda>item. i_status item \<noteq> CART_ITEM_STATUS_Cancelled)
                                    (c_products c))
                   + credit pid (filter (\<lambda>item. i_status item = CART_ITEM_STATUS_Cancelled)
                                    (c_products c)))
            (available d pid))
   \<and> (status_of_body bs = CART_ITEM_STATUS_Cancelled \<longrightarrow>
      findOne (has_item itemId) (Carts d) = Some fc \<longrightarrow>
      find (\<lambda>p. i_id p = itemId) (c_products fc) = Some l \<longrightarrow>
        available (snd (updateItemStatus d r uid itemId orderId' cartId bs)) pid
          = map_option (\<lambda>k. if i_product l = pid then k + i_quantity l else k) (available d pid))"
proof (intro conjI impI)
  assume "findOne (\<lambda>ord. o_id ord = orderId) (Orders d) = Some ord"
    and "findOne (\<lambda>c. c_id c = o_cart ord) (Carts d) = Some c"
  then have "available (snd (cancelOrder d r uid orderId)) pid
             = map_option (\<lambda>k. k + credit pid (c_products c)) (available d pid)"
    by (rule cancelOrder_available)
  also have "(\<lambda>k. k + credit pid (c_products c))
             = (\<lambda>k. k + credit pid (filter (\<lambda>item. i_status item \<noteq> CART_ITEM_STATUS_Cancelled)
                                        (c_products c))
                     + credit pid (filter (\<lambda>item. i_status item = CART_ITEM_STATUS_Cancelled)
                                        (c_products c)))"
    using credit_split [of pid "c_products c"] by (simp add: add.assoc)
  finally show "available (snd (cancelOrder d r uid orderId)) pid
        = map_option
            (\<lambda>k. k + credit pid (filter (\<lambda>item. i_status item \<noteq> CART_ITEM_STATUS_Cancelled)
                                    (c_products c))
                   + credit pid (filter (\<lambda>item. i_status item = CART_ITEM_STATUS_Cancelled)
                                    (c_products c)))
            (available d pid)" .
next
  assume "status_of_body bs = CART_ITEM_STATUS_Cancelled"
    and "findOne (has_item itemId) (Carts d) = Some fc"
    and "find (\<lambda>p. i_id p = itemId) (c_products fc) = Some l"
  then show "available (snd (updateItemStatus d r uid itemId orderId' cartId bs)) pid
          = map_option (\<lambda>k. if i_product l = pid then k + i_quantity l else k) (available d pid)"
    by (rule updateItemStatus_available)
qed

theorem cancel_credits_every_line_witness:
  "available sample_db_100_cancelled 1 = Some 7
   \<and> available (snd (cancelOrder sample_db_100_cancelled Customer 7 50)) 1 = Some (7 + 0 + 2)
   \<and> available (snd (updateItemStatus sample_db_100_cancelled Customer 7 100 50 10 None)) 1
       = Some (7 + 2)"
  using cancel_credits_every_line [of 50 sample_db_100_cancelled
      "\<lparr> o_id = 50, o_cart = 10, o_user = 7, o_total = 25, o_created = 1 \<rparr>"
      "\<lparr> c_id = 10, c_products =
          [\<lparr> i_id = 100, i_product = 1, i_quantity = 2, i_status = ''Cancelled'' \<rparr>,
           \<lparr> i_id = 101, i_product = 2, i_quantity = 1, i_status = ''Active'' \<rparr>] \<rparr>"
      Customer 7 1 None 100
      "\<lparr> c_id = 10, c_products =
          [\<lparr> i_id = 100, i_product = 1, i_quantity = 2, i_status = ''Cancelled'' \<rparr>,
           \<lparr> i_id = 101, i_product = 2, i_quantity = 1, i_status = ''Active'' \<rparr>] \<rparr>"
      "\<lparr> i_id = 100, i_product = 1, i_quantity = 2, i_status = ''Cancelled'' \<rparr>" 50 10]
  by (simp add: sample_db_100_cancelled_def findOne_def has_item_def status_of_body_def
      available_def credit_def CART_ITEM_STATUS_Cancelled_def)

subsection \<open>Cancelling a line that is already cancelled\<close>

text \<open>
  C2, as stated, fails. In the sample database after one cancellation, line 100 is
  Cancelled and product 1 has seven units; cancelling line 100 again is answered with
  success and product 1 has nine units.
\<close>

theorem cancelItem_again_counterexample:
  "i_status (hd (c_products (hd (Carts sample_db_100_cancelled)))) = CART_ITEM_STATUS_Cancelled
   \<and> available sample_db_100_cancelled 1 = Some 7
   \<and> fst (updateItemStatus sample_db_100_cancelled Customer 7 100 50 10 None)
       = Success False (Some ''Item has been cancelled successfully!'')
   \<and> available (snd (updateItemStatus sample_db_100_cancelled Customer 7 100 50 10 None)) 1
       = Some 9"
  by (simp add: eval_defs sample_db_100_cancelled_def available_def)


text \<open>
  C2, amended. The item handler applied to a line that is already Cancelled, in an order
  whose cart still exists, reports success and credits the quantity of the line to its
  product once more: every call with status Cancelled triggers the credit.
\<close>

theorem cancelItem_again_restocks:
  assumes "status_of_body bs = CART_ITEM_STATUS_Cancelled"
    and "findOne (has_item itemId) (Carts d) = Some fc"
    and "find (\<lambda>p. i_id p = itemId) (c_products fc) = Some l"
    and "i_status l = CART_ITEM_STATUS_Cancelled"
    and "findOne (\<lambda>c. c_id c = cartId) (Carts d) = Some c0"
  shows "(\<exists>b m. fst (updateItemStatus d r uid itemId orderId cartId bs) = Success b m)
         \<and> available (snd (updateItemStatus d r uid itemId orderId cartId bs)) (i_product l)
             = map_option (\<lambda>k. k + i_quantity l) (available d (i_product l))"
  using updateItemStatus_Success [OF assms(1-3,5)] updateItemStatus_available [OF assms(1-3)]
  by simp

theorem cancelItem_again_restocks_witness:
  "(\<exists>b m. fst (updateItemStatus sample_db_100_cancelled Customer 7 100 50 10 None) = Success b m)
   \<and> available (snd (updateItemStatus sample_db_100_cancelled Customer 7 100 50 10 None)) 1
       = Some (7 + 2)"
  using cancelItem_again_restocks [of None 100 sample_db_100_cancelled
      "\<lparr> c_id = 10, c_products =
          [\<lparr> i_id = 100, i_product = 1, i_quantity = 2, i_status = ''Cancelled'' \<rparr>,
           \<lparr> i_id = 101, i_product = 2, i_quantity = 1, i_status = ''Active'' \<rparr>] \<rparr>"
      "\<lparr> i_id = 100, i_product = 1, i_quantity = 2, i_status = ''Cancelled'' \<rparr>" 10
      "\<lparr> c_id = 10, c_products =
          [\<lparr> i_id = 100, i_product = 1, i_quantity = 2, i_status = ''Cancelled'' \<rparr>,
           \<lparr> i_id = 101, i_product = 2, i_quantity = 1, i_status = ''Active'' \<rparr>] \<rparr>"
      Customer 7 50]
  by (simp add: sample_db_100_cancelled_def findOne_def has_item_def status_of_body_def
      available_def CART_ITEM_STATUS_Cancelled_def)



subsection \<open>The default status\<close>

text \<open>
  C10. A request to the item status handler without a status behaves exactly as the
  request with status Cancelled. When the line is found, its quantity is credited to its
  product, and the status write sets the line to Cancelled; the cart with that line is
  in the final state unless the handler has deleted the cart of the request.
\<close>

theorem default_status_cancels:
  "updateItemStatus d r uid itemId orderId cartId None
     = updateItemStatus d r uid itemId orderId cartId (Some CART_ITEM_STATUS_Cancelled)
   \<and> (findOne (has_item itemId) (Carts d) = Some fc \<longrightarrow>
      find (\<lambda>p. i_id p = itemId) (c_products fc) = Some l \<longrightarrow>
        Products (snd (updateItemStatus d r uid itemId orderId cartId None))
          = updateOne (\<lambda>p. p_id p = i_product l) (inc_quantity (i_quantity l)) (Products d)
        \<and> findOne (has_item itemId)
            (updateOne (has_item itemId) (set_item_status itemId CART_ITEM_STATUS_Cancelled)
               (Carts d))
          = Some (set_item_status itemId CART_ITEM_STATUS_Cancelled fc)
        \<and> find (\<lambda>p. i_id p = itemId)
            (c_products (set_item_status itemId CART_ITEM_STATUS_Cancelled fc))
          = Some (l\<lparr> i_status := CART_ITEM_STATUS_Cancelled \<rparr>)
        \<and> (Carts (snd (updateItemStatus d r uid itemId orderId cartId None))
             = updateOne (has_item itemId) (set_item_status itemId CART_ITEM_STATUS_Cancelled)
                 (Carts d)
           \<or> Carts (snd (updateItemStatus d r uid itemId orderId cartId None))
             = deleteOne (\<lambda>c. c_id c = cartId)
                 (updateOne (has_item itemId)
                    (set_item_status itemId CART_ITEM_STATUS_Cancelled) (Carts d))))"
proof (intro conjI impI)
  show "updateItemStatus d r uid itemId orderId cartId None
     = updateItemStatus d r uid itemId orderId cartId (Some CART_ITEM_STATUS_Cancelled)"
    by (rule updateItemStatus_status_of_body) (simp add: status_of_body_default)
next
  assume fc: "findOne (has_item itemId) (Carts d) = Some fc"
    and l: "find (\<lambda>p. i_id p = itemId) (c_products fc) = Some l"
  show "Products (snd (updateItemStatus d r uid itemId orderId cartId None))
          = updateOne (\<lambda>p. p_id p = i_product l) (inc_quantity (i_quantity l)) (Products d)"
    by (rule updateItemStatus_Products [OF status_of_body_default(1) fc l])
  show "findOne (has_item itemId)
            (updateOne (has_item itemId) (set_item_status itemId CART_ITEM_STATUS_Cancelled)
               (Carts d))
          = Some (set_item_status itemId CART_ITEM_STATUS_Cancelled fc)"
    using fc by (simp add: findOne_def find_updateOne_same)
  show "find (\<lambda>p. i_id p = itemId)
            (c_products (set_item_status itemId CART_ITEM_STATUS_Cancelled fc))
          = Some (l\<lparr> i_status := CART_ITEM_STATUS_Cancelled \<rparr>)"
    using l by (simp add: find_item_set_item_status)
  show "Carts (snd (updateItemStatus d r uid itemId orderId cartId None))
             = updateOne (has_item itemId) (set_item_status itemId CART_ITEM_STATUS_Cancelled)
                 (Carts d)
           \<or> Carts (snd (updateItemStatus d r uid itemId orderId cartId None))
             = deleteOne (\<lambda>c. c_id c = cartId)
                 (updateOne (has_item itemId)
                    (set_item_status itemId CART_ITEM_STATUS_Cancelled) (Carts d))"
    by (rule updateItemStatus_Carts [OF status_of_body_default(1) fc l])
qed

theorem default_status_cancels_witness:
  "updateItemStatus sample_db Customer 7 100 50 10 None
     = updateItemStatus sample_db Customer 7 100 50 10 (Some ''Cancelled'')
   \<and> Products (snd (updateItemStatus sample_db Customer 7 100 50 10 None))
       = [\<lparr> p_id = 1, p_quantity = 7, p_price = 10, p_taxable = True \<rparr>,
          \<lparr> p_id = 2, p_quantity = 0, p_price = 5, p_taxable = False \<rparr>]"
proof -
  let ?fc = "\<lparr> c_id = 10, c_products =
          [\<lparr> i_id = 100, i_product = 1, i_quantity = 2, i_status = ''Active'' \<rparr>,
           \<lparr> i_id = 101, i_product = 2, i_quantity = 1, i_status = ''Active'' \<rparr>] \<rparr>"
  let ?l = "\<lparr> i_id = 100, i_product = 1, i_quantity = 2, i_status = ''Active'' \<rparr>"
  note w = default_status_cancels [of sample_db Customer 7 100 50 10 ?fc ?l]
  have fc: "findOne (has_item 100) (Carts sample_db) = Some ?fc"
    by (simp add: sample_db_def findOne_def has_item_def)
  have l: "find (\<lambda>p. i_id p = 100) (c_products ?fc) = Some ?l"
    by simp
  have "Products (snd (updateItemStatus sample_db Customer 7 100 50 10 None))
        = updateOne (\<lambda>p. p_id p = i_product ?l) (inc_quantity (i_quantity ?l)) (Products sample_db)"
    using w fc l by blast
  moreover have "updateItemStatus sample_db Customer 7 100 50 10 None
     = updateItemStatus sample_db Customer 7 100 50 10 (Some ''Cancelled'')"
    using w by (simp add: CART_ITEM_STATUS_Cancelled_def)
  ultimately show ?thesis
    by (simp add: sample_db_def inc_quantity_def)
qed

subsection \<open>Cancelling line by line\<close>

lemma cancel_step:
  assumes cart: "find (\<lambda>c'. c_id c' = cartId) (Carts d) = Some c"
    and item: "find (has_item itemId) (Carts d) = Some c"
  shows "fst (updateItemStatus d r uid itemId orderId cartId (Some CART_ITEM_STATUS_Cancelled))
           = (if \<forall>i \<in> set (c_products (set_item_status itemId CART_ITEM_STATUS_Cancelled c)).
                   i_status i = CART_ITEM_STATUS_Cancelled
              then Success True (Some ((if r = Admin then ''Order'' else ''Your order'')
                                        @ '' has been cancelled successfully''))
              else Success False (Some ''Item has been cancelled successfully!''))"
    and "Orders (snd (updateItemStatus d r uid itemId orderId cartId (Some CART_ITEM_STATUS_Cancelled)))
           = (if \<forall>i \<in> set (c_products (set_item_status itemId CART_ITEM_STATUS_Cancelled c)).
                   i_status i = CART_ITEM_STATUS_Cancelled
              then deleteOne (\<lambda>ord. o_id ord = orderId) (Orders d) else Orders d)"
    and "Carts (snd (updateItemStatus d r uid itemId orderId cartId (Some CART_ITEM_STATUS_Cancelled)))
           = (if \<forall>i \<in> set (c_products (set_item_status itemId CART_ITEM_STATUS_Cancelled c)).
                   i_status i = CART_ITEM_STATUS_Cancelled
              then deleteOne (\<lambda>c'. c_id c' = cartId)
                     (updateOne (has_item itemId)
                        (set_item_status itemId CART_ITEM_STATUS_Cancelled) (Carts d))
              else updateOne (has_item itemId)
                     (set_item_status itemId CART_ITEM_STATUS_Cancelled) (Carts d))"
proof -
  have "has_item itemId c" using item by (rule find_Some_holds)
  then have "itemId \<in> set (map i_id (c_products c))" by (simp only: has_item_iff)
  then obtain l where l: "find (\<lambda>p. i_id p = itemId) (c_products c) = Some l"
    using find_item_Some by blast
  have c': "find (\<lambda>c'. c_id c' = cartId)
              (updateOne (has_item itemId) (set_item_status itemId CART_ITEM_STATUS_Cancelled) (Carts d))
            = Some (set_item_status itemId CART_ITEM_STATUS_Cancelled c)"
    by (rule find_updateOne_both [OF _ item cart]) simp
  have st: "status_of_body (Some CART_ITEM_STATUS_Cancelled) = CART_ITEM_STATUS_Cancelled"
    by (simp add: status_of_body_default)
  note unf = updateItemStatus_def Let_def findOne_def st item l c' length_filter_all
  show "fst (updateItemStatus d r uid itemId orderId cartId (Some CART_ITEM_STATUS_Cancelled))
           = (if \<forall>i \<in> set (c_products (set_item_status itemId CART_ITEM_STATUS_Cancelled c)).
                   i_status i = CART_ITEM_STATUS_Cancelled
              then Success True (Some ((if r = Admin then ''Order'' else ''Your order'')
                                        @ '' has been cancelled successfully''))
              else Success False (Some ''Item has been cancelled successfully!''))"
    by (simp add: unf)
  show "Orders (snd (updateItemStatus d r uid itemId orderId cartId (Some CART_ITEM_STATUS_Cancelled)))
           = (if \<forall>i \<in> set (c_products (set_item_status itemId CART_ITEM_STATUS_Cancelled c)).
                   i_status i = CART_ITEM_STATUS_Cancelled
              then deleteOne (\<lambda>ord. o_id ord = orderId) (Orders d) else Orders d)"
    by (simp add: unf)
  show "Carts (snd (updateItemStatus d r uid itemId orderId cartId (Some CART_ITEM_STATUS_Cancelled)))
           = (if \<forall>i \<in> set (c_products (set_item_status itemId CART_ITEM_STATUS_Cancelled c)).
                   i_status i = CART_ITEM_STATUS_Cancelled
              then deleteOne (\<lambda>c'. c_id c' = cartId)
                     (updateOne (has_item itemId)
                        (set_item_status itemId CART_ITEM_STATUS_Cancelled) (Carts d))
              else updateOne (has_item itemId)
                     (set_item_status itemId CART_ITEM_STATUS_Cancelled) (Carts d))"
    by (simp add: unf)
qed


lemma active_ids_Nil_iff:
  "(active_ids items = []) = (\<forall>i \<in> set items. i_status i = CART_ITEM_STATUS_Cancelled)"
  by (simp add: active_ids_def filter_empty_conv)

lemma active_ids_subset: "set (active_ids items) \<subseteq> set (map i_id items)"
  by (auto simp: active_ids_def)

lemma active_ids_cancel:
  "distinct (map i_id items) \<Longrightarrow>
   set (active_ids (updateOne (\<lambda>p. i_id p = x)
          (\<lambda>p. p\<lparr> i_status := CART_ITEM_STATUS_Cancelled \<rparr>) items))
   = set (active_ids items) - {x}"
proof (induction items)
  case Nil
  then show ?case by (simp add: active_ids_def)
next
  case (Cons a items)
  show ?case
  proof (cases "i_id a = x")
    case True
    with Cons.prems have "x \<notin> set (map i_id items)" by simp
    with active_ids_subset [of items] have "x \<notin> set (active_ids items)" by blast
    with True show ?thesis by (auto simp: active_ids_def)
  next
    case False
    with Cons show ?thesis by (auto simp: active_ids_def)
  qed
qed

lemma active_ids_set_item_status:
  "distinct (map i_id (c_products c)) \<Longrightarrow>
   set (active_ids (c_products (set_item_status x CART_ITEM_STATUS_Cancelled c)))
   = set (active_ids (c_products c)) - {x}"
  by (simp add: set_item_status_def active_ids_cancel)


lemma cancelEach_run:
  assumes "distinct (map o_id (Orders d))" and "ord \<in> set (Orders d)" and "o_id ord = orderId"
    and "distinct (map c_id (Carts d))"
    and "find (\<lambda>c'. c_id c' = cartId) (Carts d) = Some c"
    and "\<forall>j \<in> set (map i_id (c_products c)). find (has_item j) (Carts d) = Some c"
    and "distinct (map i_id (c_products c))"
    and "distinct ids" and "set ids = set (active_ids (c_products c))" and "k < length ids"
  shows "fst (cancelEach d r uid orderId cartId ids ! k)
           = (if Suc k = length ids
              then Success True (Some ((if r = Admin then ''Order'' else ''Your order'')
                                        @ '' has been cancelled successfully''))
              else Success False (Some ''Item has been cancelled successfully!''))
         \<and> find (\<lambda>ord'. o_id ord' = orderId) (Orders (snd (cancelEach d r uid orderId cartId ids ! k)))
           = (if Suc k = length ids then None else Some ord)
         \<and> (find (\<lambda>c'. c_id c' = cartId) (Carts (snd (cancelEach d r uid orderId cartId ids ! k)))
              = None) = (Suc k = length ids)"
  using assms
proof (induction ids arbitrary: d c k)
  case Nil
  then show ?case by simp
next
  case (Cons x rest)
  let ?C = CART_ITEM_STATUS_Cancelled
  let ?res = "updateItemStatus d r uid x orderId cartId (Some ?C)"
  let ?c' = "set_item_status x ?C c"
  let ?carts1 = "updateOne (has_item x) (set_item_status x ?C) (Carts d)"
  note ords = Cons.prems(1) and ord = Cons.prems(2) and oid = Cons.prems(3)
    and carts = Cons.prems(4) and cart = Cons.prems(5) and items = Cons.prems(6)
    and lines = Cons.prems(7) and dist = Cons.prems(8) and act = Cons.prems(9)
    and k = Cons.prems(10)
  have "x \<in> set (active_ids (c_products c))" using act by auto
  with active_ids_subset have xin: "x \<in> set (map i_id (c_products c))" by blast
  with items have item: "find (has_item x) (Carts d) = Some c" by blast
  note step = cancel_step [OF cart item, of r uid orderId]
  have act': "set rest = set (active_ids (c_products ?c'))"
    using active_ids_set_item_status [OF lines, of x] dist act by auto
  have "(active_ids (c_products ?c') = []) = (rest = [])"
    using act' by (metis set_empty)
  then have allc: "(\<forall>i \<in> set (c_products ?c'). i_status i = ?C) = (rest = [])"
    by (simp add: active_ids_Nil_iff)
  have carts1: "distinct (map c_id ?carts1)"
    using carts by (simp add: map_updateOne_key)
  have cart1: "find (\<lambda>c'. c_id c' = cartId) ?carts1 = Some ?c'"
    by (rule find_updateOne_both [OF _ item cart]) simp
  have ord_found: "find (\<lambda>ord'. o_id ord' = orderId) (Orders d) = Some ord"
    using find_unique_key [OF ords ord] oid by simp
  show ?case
  proof (cases k)
    case 0
    show ?thesis
    proof (cases "rest = []")
      case True
      have "find (\<lambda>ord'. o_id ord' = orderId) (deleteOne (\<lambda>ord'. o_id ord' = orderId) (Orders d))
            = None"
        by (rule find_deleteOne_unique [OF ords])
      moreover have "find (\<lambda>c'. c_id c' = cartId) (deleteOne (\<lambda>c'. c_id c' = cartId) ?carts1)
            = None"
        by (rule find_deleteOne_unique [OF carts1])
      ultimately show ?thesis using 0 True step allc by simp
    next
      case False
      with 0 step allc cart1 ord_found show ?thesis by simp
    qed
  next
    case (Suc k')
    with k have k': "k' < length rest" by simp
    then have ne: "rest \<noteq> []" by auto
    have o': "Orders (snd ?res) = Orders d" and c1: "Carts (snd ?res) = ?carts1"
      using step allc ne by simp_all
    have items': "\<forall>j \<in> set (map i_id (c_products ?c')). find (has_item j) (Carts (snd ?res)) = Some ?c'"
    proof
      fix j assume "j \<in> set (map i_id (c_products ?c'))"
      then have "j \<in> set (map i_id (c_products c))" by simp
      with items have "find (has_item j) (Carts d) = Some c" by blast
      then have "find (has_item j) ?carts1 = Some ?c'"
        by (intro find_updateOne_both [OF _ item]) simp_all
      then show "find (has_item j) (Carts (snd ?res)) = Some ?c'" by (simp only: c1)
    qed
    have "fst (cancelEach (snd ?res) r uid orderId cartId rest ! k')
           = (if Suc k' = length rest
              then Success True (Some ((if r = Admin then ''Order'' else ''Your order'')
                                        @ '' has been cancelled successfully''))
              else Success False (Some ''Item has been cancelled successfully!''))
         \<and> find (\<lambda>ord'. o_id ord' = orderId)
             (Orders (snd (cancelEach (snd ?res) r uid orderId cartId rest ! k')))
           = (if Suc k' = length rest then None else Some ord)
         \<and> (find (\<lambda>c'. c_id c' = cartId)
              (Carts (snd (cancelEach (snd ?res) r uid orderId cartId rest ! k')))
              = None) = (Suc k' = length rest)"
    proof (rule Cons.IH [of "snd ?res" ?c' k'])
      show "distinct (map o_id (Orders (snd ?res)))" using ords by (simp only: o')
      show "ord \<in> set (Orders (snd ?res))" using ord by (simp only: o')
      show "o_id ord = orderId" by (rule oid)
      show "distinct (map c_id (Carts (snd ?res)))" using carts1 by (simp only: c1)
      show "find (\<lambda>c'. c_id c' = cartId) (Carts (snd ?res)) = Some ?c'"
        using cart1 by (simp only: c1)
      show "\<forall>j \<in> set (map i_id (c_products ?c')). find (has_item j) (Carts (snd ?res)) = Some ?c'"
        by (rule items')
      show "distinct (map i_id (c_products ?c'))" using lines by simp
      show "distinct rest" using dist by simp
      show "set rest = set (active_ids (c_products ?c'))" by (rule act')
      show "k' < length rest" by (rule k')
    qed
    with Suc show ?thesis by simp
  qed
qed


lemma length_cancelEach: "length (cancelEach d r uid orderId cartId ids) = length ids"
  by (induction ids arbitrary: d) simp_all

lemma active_ids_all:
  "\<forall>i \<in> set items. i_status i \<noteq> CART_ITEM_STATUS_Cancelled \<Longrightarrow> active_ids items = map i_id items"
  by (simp add: active_ids_def)

text \<open>
  C3. An order is bound to a cart, and the lines of the cart that are not yet Cancelled
  are cancelled one at a time, in any order, each request naming the order and its cart.
  Every call but the last answers that the item has been cancelled and leaves the order
  and the cart in place; the call that cancels the last line answers with
  \<^verbatim>\<open>orderCancelled\<close>, and after it neither the order nor the cart can be found. When no
  line of a cart with N lines is Cancelled at the start, that call is the Nth.
\<close>

theorem cancel_lines_one_at_a_time:
  assumes "distinct (map o_id (Orders d))" and "distinct (map c_id (Carts d))"
    and "ord \<in> set (Orders d)" and "o_id ord = orderId" and "o_cart ord = cartId"
    and "c \<in> set (Carts d)" and "c_id c = cartId"
    and "distinct (map i_id (c_products c))"
    and "\<forall>j \<in> set (map i_id (c_products c)). findOne (has_item j) (Carts d) = Some c"
    and "distinct ids" and "set ids = set (active_ids (c_products c))"
    and "k < length ids"
  shows "length (cancelEach d r uid orderId cartId ids) = length ids
         \<and> ((\<forall>i \<in> set (c_products c). i_status i \<noteq> CART_ITEM_STATUS_Cancelled)
              \<longrightarrow> length ids = length (c_products c))
         \<and> fst (cancelEach d r uid orderId cartId ids ! k)
           = (if Suc k = length ids
              then Success True (Some ((if r = Admin then ''Order'' else ''Your order'')
                                        @ '' has been cancelled successfully''))
              else Success False (Some ''Item has been cancelled successfully!''))
         \<and> findOne (\<lambda>ord'. o_id ord' = orderId)
             (Orders (snd (cancelEach d r uid orderId cartId ids ! k)))
           = (if Suc k = length ids then None else Some ord)
         \<and> (findOne (\<lambda>c'. c_id c' = cartId)
              (Carts (snd (cancelEach d r uid orderId cartId ids ! k))) = None)
           = (Suc k = length ids)"
proof -
  have len: "length ids = length (c_products c)"
    if "\<forall>i \<in> set (c_products c). i_status i \<noteq> CART_ITEM_STATUS_Cancelled"
  proof -
    have "length ids = card (set ids)"
      using assms(10) by (simp add: distinct_card)
    also have "\<dots> = card (set (map i_id (c_products c)))"
      using assms(11) that by (simp add: active_ids_all)
    also have "\<dots> = length (map i_id (c_products c))"
      using assms(8) by (rule distinct_card)
    finally show ?thesis by simp
  qed
  have cart: "find (\<lambda>c'. c_id c' = cartId) (Carts d) = Some c"
    using find_unique_key [OF assms(2,6)] assms(7) by simp
  have items: "\<forall>j \<in> set (map i_id (c_products c)). find (has_item j) (Carts d) = Some c"
    using assms(9) by (simp add: findOne_def)
  show ?thesis
    using cancelEach_run [OF assms(1,3,4,2) cart items assms(8,10,11,12), of r uid] len
    by (simp add: length_cancelEach findOne_def)
qed

theorem cancel_lines_one_at_a_time_witness:
  "fst (cancelEach sample_db Customer 7 50 10 [101, 100] ! 0)
     = Success False (Some ''Item has been cancelled successfully!'')
   \<and> findOne (\<lambda>ord'. o_id ord' = 50)
        (Orders (snd (cancelEach sample_db Customer 7 50 10 [101, 100] ! 0)))
     = Some \<lparr> o_id = 50, o_cart = 10, o_user = 7, o_total = 25, o_created = 1 \<rparr>
   \<and> findOne (\<lambda>c'. c_id c' = 10)
        (Carts (snd (cancelEach sample_db Customer 7 50 10 [101, 100] ! 0))) \<noteq> None
   \<and> fst (cancelEach sample_db Customer 7 50 10 [101, 100] ! 1)
     = Success True (Some ''Your order has been cancelled successfully'')
   \<and> findOne (\<lambda>ord'. o_id ord' = 50)
        (Orders (snd (cancelEach sample_db Customer 7 50 10 [101, 100] ! 1))) = None
   \<and> findOne (\<lambda>c'. c_id c' = 10)
        (Carts (snd (cancelEach sample_db Customer 7 50 10 [101, 100] ! 1))) = None
   \<and> fst (cancelEach sample_db_100_cancelled Admin 9 50 10 [101] ! 0)
     = Success True (Some ''Order has been cancelled successfully'')
   \<and> findOne (\<lambda>ord'. o_id ord' = 50)
        (Orders (snd (cancelEach sample_db_100_cancelled Admin 9 50 10 [101] ! 0))) = None
   \<and> findOne (\<lambda>c'. c_id c' = 10)
        (Carts (snd (cancelEach sample_db_100_cancelled Admin 9 50 10 [101] ! 0))) = None"
proof -
  let ?ord = "\<lparr> o_id = 50, o_cart = 10, o_user = 7, o_total = 25, o_created = 1 \<rparr>"
  let ?c = "\<lparr> c_id = 10, c_products =
          [\<lparr> i_id = 100, i_product = 1, i_quantity = 2, i_status = ''Active'' \<rparr>,
           \<lparr> i_id = 101, i_product = 2, i_quantity = 1, i_status = ''Active'' \<rparr>] \<rparr>"
  let ?c' = "\<lparr> c_id = 10, c_products =
          [\<lparr> i_id = 100, i_product = 1, i_quantity = 2, i_status = ''Cancelled'' \<rparr>,
           \<lparr> i_id = 101, i_product = 2, i_quantity = 1, i_status = ''Active'' \<rparr>] \<rparr>"
  have h: "distinct (map o_id (Orders sample_db))" "distinct (map c_id (Carts sample_db))"
    "?ord \<in> set (Orders sample_db)" "o_id ?ord = 50" "o_cart ?ord = 10"
    "?c \<in> set (Carts sample_db)" "c_id ?c = 10"
    "distinct (map i_id (c_products ?c))"
    "\<forall>j \<in> set (map i_id (c_products ?c)). findOne (has_item j) (Carts sample_db) = Some ?c"
    "distinct [101, 100 :: oid]" "set [101, 100] = set (active_ids (c_products ?c))"
    by (auto simp: sample_db_def findOne_def has_item_def active_ids_def
        CART_ITEM_STATUS_Cancelled_def)
  have h': "distinct (map o_id (Orders sample_db_100_cancelled))"
    "distinct (map c_id (Carts sample_db_100_cancelled))"
    "?ord \<in> set (Orders sample_db_100_cancelled)" "o_id ?ord = 50" "o_cart ?ord = 10"
    "?c' \<in> set (Carts sample_db_100_cancelled)" "c_id ?c' = 10"
    "distinct (map i_id (c_products ?c'))"
    "\<forall>j \<in> set (map i_id (c_products ?c')).
       findOne (has_item j) (Carts sample_db_100_cancelled) = Some ?c'"
    "distinct [101 :: oid]" "set [101] = set (active_ids (c_products ?c'))"
    by (auto simp: sample_db_100_cancelled_def findOne_def has_item_def active_ids_def
        CART_ITEM_STATUS_Cancelled_def)
  have k0: "0 < length [101, 100 :: oid]" and k1: "1 < length [101, 100 :: oid]"
    and k0': "0 < length [101 :: oid]" by simp_all
  show ?thesis
    using cancel_lines_one_at_a_time [OF h k0, of Customer 7]
      cancel_lines_one_at_a_time [OF h k1, of Customer 7]
      cancel_lines_one_at_a_time [OF h' k0', of Admin 9]
    by simp
qed

subsection \<open>The order of restock and deletion\<close>

lemma cancelOrder_calls_None:
  "(cancelOrder_calls d orderId = None) = (cancelOrder d r uid orderId = (BadRequest, d))"
  by (simp add: cancelOrder_calls_def cancelOrder_def Let_def split: option.splits)

lemma cancelOrder_eager:
  "cancelOrder_calls d orderId = Some calls \<Longrightarrow>
   run [Proceed, Complete 0, Proceed, Proceed] \<lparr> store = d, pending = [], todo = calls \<rparr>
   = Some \<lparr> store = snd (cancelOrder d r uid orderId), pending = [], todo = [] \<rparr>"
  by (auto simp: cancelOrder_calls_def cancelOrder_def Let_def increaseQuantity_def
      split: option.splits)

text \<open>
  C4. The restock should be applied before the order and the cart are deleted. The item
  status handler awaits its \<^verbatim>\<open>Product.updateOne\<close> before it deletes. The whole-order
  cancel drops the promise of its bulk write: on the sample database the handler runs its
  three calls to the end, the order and the cart are deleted, and the bulk write that
  restocks products 1 and 2 is still pending, the stock unchanged.
\<close>

theorem cancelOrder_deletes_before_restock:
  "cancelOrder_calls sample_db 50
     = Some [Dropped (BulkWrite [(1, 2), (2, 1)]), Awaited (DeleteOrder 50),
             Awaited (DeleteCart 10)]
   \<and> run [Proceed, Proceed, Proceed]
       \<lparr> store = sample_db, pending = [],
         todo = [Dropped (BulkWrite [(1, 2), (2, 1)]), Awaited (DeleteOrder 50),
                 Awaited (DeleteCart 10)] \<rparr>
     = Some \<lparr> store = \<lparr> Products = Products sample_db, Carts = [], Orders = [] \<rparr>,
              pending = [BulkWrite [(1, 2), (2, 1)]], todo = [] \<rparr>"
  by (simp add: cancelOrder_calls_def findOne_def bulkOptions_of_def sample_db_def)

end
